theory Spec2Isabelle
  imports Main "HOL-Library.Sublist"
begin

section \<open>Python values, exceptions and the HTTP boundary\<close>

text \<open>
  The scripts under \<^verbatim>\<open>scripts/\<close> talk to a live server through \<^verbatim>\<open>requests\<close> and to
  a browser through Playwright. Both are inputs of the model. A call that raises a
  Python exception is the value \<open>Raises\<close>; a call that completes is \<open>Returns v\<close>.
\<close>

datatype 'a outcome = Raises | Returns 'a

text \<open>
  What \<^verbatim>\<open>response.json()\<close> can hand back. An object is the list of its items, with
  distinct keys, read with \<open>map_of\<close>; a number is an integer (no probe reads a fraction).
\<close>

datatype json =
    JNull
  | JBool bool
  | JNum int
  | JStr string
  | JArr "json list"
  | JObj "(string \<times> json) list"

datatype http_method = GET | POST | OPTIONS

record request =
  meth :: http_method
  req_url :: string
  json_payload :: "(string \<times> string) list"
  params :: "(string \<times> string) list"
  headers :: "(string \<times> string) list"

text \<open>
  A response as the scripts read it: \<^verbatim>\<open>status_code\<close>, \<^verbatim>\<open>headers.get(name)\<close> and
  \<^verbatim>\<open>json()\<close>, which raises when the body is not JSON (\<open>None\<close> here).
\<close>

record response =
  status_code :: int
  resp_headers :: "string \<rightharpoonup> string"
  json_body :: "json option"

text \<open>
  The server answers a request knowing the requests made before it (a rate limiter
  counts them). The log of requests made so far is the state the probes thread through.
\<close>

type_synonym server = "request list \<Rightarrow> request \<Rightarrow> response outcome"

definition API_URL :: string where
  "API_URL = ''http://localhost:3000''"

definition DASHBOARD_URL :: string where
  "DASHBOARD_URL = ''http://localhost:3001''"

text \<open>Values a probe of \<^verbatim>\<open>test-security.py\<close> returns, and Python's truth test on them.\<close>

datatype pyval = PStr string | PBool bool

fun truthy :: "pyval \<Rightarrow> bool" where
  "truthy (PStr s) = (s \<noteq> [])"
| "truthy (PBool b) = b"

text \<open>The two labels of the summary that \<^verbatim>\<open>main\<close> prints.\<close>

datatype label = PASS | CHECK

section \<open>test-security.py\<close>

subsection \<open>test\_rate\_limiting\<close>

definition signin_request :: request where
  "signin_request = \<lparr> meth = POST, req_url = API_URL @ ''/api/auth/signin'',
     json_payload = [(''email'', ''test@test.com''), (''password'', ''wrongpassword'')],
     params = [], headers = [] \<rparr>"

text \<open>One entry of \<^verbatim>\<open>results\<close>: a status code, or the string \<^verbatim>\<open>"error"\<close>.\<close>

datatype attempt = Status int | Error

definition rate_attempt :: "response outcome \<Rightarrow> attempt" where
  "rate_attempt out = (case out of Raises \<Rightarrow> Error | Returns r \<Rightarrow> Status (status_code r))"

text \<open>The loop \<^verbatim>\<open>for i in range(7)\<close>, with the number of iterations left as first argument.\<close>

fun rate_loop :: "nat \<Rightarrow> server \<Rightarrow> attempt list \<Rightarrow> request list \<Rightarrow> attempt list \<times> request list" where
  "rate_loop 0 srv results log = (results, log)"
| "rate_loop (Suc n) srv results log =
     rate_loop n srv (results @ [rate_attempt (srv log signin_request)]) (log @ [signin_request])"

definition rate_results :: "server \<Rightarrow> request list \<Rightarrow> attempt list" where
  "rate_results srv log = fst (rate_loop 7 srv [] log)"

definition test_rate_limiting :: "server \<Rightarrow> request list \<Rightarrow> bool \<times> request list" where
  "test_rate_limiting srv log =
     (let (results, log') = rate_loop 7 srv [] log;
          rate_limited = (Status 429 \<in> set results)
      in (rate_limited, log'))"

subsection \<open>test\_zod\_validation\<close>

record zod_test =
  name :: string
  endpoint :: string
  payload :: "(string \<times> string) list"
  expected_code :: int

definition tests :: "zod_test list" where
  "tests =
    [ \<lparr> name = ''Signup - invalid email'', endpoint = API_URL @ ''/api/auth/signup'',
        payload = [(''email'', ''not-an-email''), (''password'', ''password123'')],
        expected_code = 400 \<rparr>,
      \<lparr> name = ''Signup - short password'', endpoint = API_URL @ ''/api/auth/signup'',
        payload = [(''email'', ''test@test.com''), (''password'', ''short'')],
        expected_code = 400 \<rparr>,
      \<lparr> name = ''Signin - invalid email format'', endpoint = API_URL @ ''/api/auth/signin'',
        payload = [(''email'', ''not-an-email''), (''password'', ''password123'')],
        expected_code = 400 \<rparr>,
      \<lparr> name = ''Test Slack - invalid bot token format'', endpoint = API_URL @ ''/api/setup/test-slack'',
        payload = [(''botToken'', ''invalid-token''), (''appToken'', ''xapp-valid'')],
        expected_code = 400 \<rparr>,
      \<lparr> name = ''Test Slack - invalid app token format'', endpoint = API_URL @ ''/api/setup/test-slack'',
        payload = [(''botToken'', ''xoxb-valid''), (''appToken'', ''invalid-token'')],
        expected_code = 400 \<rparr> ]"

definition zod_request :: "zod_test \<Rightarrow> request" where
  "zod_request t = \<lparr> meth = POST, req_url = endpoint t, json_payload = payload t,
     params = [], headers = [] \<rparr>"

text \<open>
  Python's \<^verbatim>\<open>s in v\<close> for a string \<open>s\<close>: a substring test on a string, membership in
  a list, key membership in a dict, and a TypeError on anything else.
\<close>

definition py_in :: "string \<Rightarrow> json \<Rightarrow> bool outcome" where
  "py_in s v =
     (case v of
        JStr t \<Rightarrow> Returns (sublist s t)
      | JArr xs \<Rightarrow> Returns (JStr s \<in> set xs)
      | JObj kvs \<Rightarrow> Returns (s \<in> fst ` set kvs)
      | _ \<Rightarrow> Raises)"

text \<open>
  \<^verbatim>\<open>data.get("code") == "VALIDATION_ERROR" or "Validation" in data.get("error", "")\<close>.
  Only a dict has \<^verbatim>\<open>get\<close>; \<^verbatim>\<open>or\<close> does not evaluate its right side when the left
  one holds.
\<close>

definition has_validation_error :: "json \<Rightarrow> bool outcome" where
  "has_validation_error data =
     (case data of
        JObj kvs \<Rightarrow>
          if map_of kvs ''code'' = Some (JStr ''VALIDATION_ERROR'') then Returns True
          else py_in ''Validation'' (case map_of kvs ''error'' of None \<Rightarrow> JStr [] | Some v \<Rightarrow> v)
      | _ \<Rightarrow> Raises)"

text \<open>The body of the \<^verbatim>\<open>try\<close> for one case: the final value of \<^verbatim>\<open>passed\<close>, or an exception.\<close>

definition zod_try :: "zod_test \<Rightarrow> response outcome \<Rightarrow> bool outcome" where
  "zod_try t out =
     (case out of
        Raises \<Rightarrow> Raises
      | Returns r \<Rightarrow>
          let passed = (status_code r = expected_code t) in
          if passed \<and> status_code r = 400 then
            (case json_body r of None \<Rightarrow> Raises | Some data \<Rightarrow> has_validation_error data)
          else Returns passed)"

text \<open>A case passes when its \<^verbatim>\<open>try\<close> body ends with \<^verbatim>\<open>passed\<close> true; the \<^verbatim>\<open>except\<close> branch and a false \<^verbatim>\<open>passed\<close> both clear \<^verbatim>\<open>all_passed\<close>.\<close>

definition zod_case_passed :: "zod_test \<Rightarrow> response outcome \<Rightarrow> bool" where
  "zod_case_passed t out = (zod_try t out = Returns True)"

fun zod_loop :: "server \<Rightarrow> zod_test list \<Rightarrow> bool \<Rightarrow> request list \<Rightarrow> bool \<times> request list" where
  "zod_loop srv [] all_passed log = (all_passed, log)"
| "zod_loop srv (t # ts) all_passed log =
     zod_loop srv ts
       (if zod_case_passed t (srv log (zod_request t)) then all_passed else False)
       (log @ [zod_request t])"

definition test_zod_validation :: "server \<Rightarrow> request list \<Rightarrow> bool \<times> request list" where
  "test_zod_validation srv log = zod_loop srv tests True log"

subsection \<open>test\_cors\_headers\<close>

definition cors_request :: "string \<Rightarrow> request" where
  "cors_request origin = \<lparr> meth = OPTIONS, req_url = API_URL @ ''/api/health'',
     json_payload = [], params = [], headers = [(''Origin'', origin)] \<rparr>"

definition allowed_origin :: string where
  "allowed_origin = ''http://localhost:3001''"

definition evil_origin :: string where
  "evil_origin = ''http://evil.com''"

text \<open>\<^verbatim>\<open>response.headers.get("Access-Control-Allow-Origin", "")\<close>.\<close>

definition acao :: "response \<Rightarrow> string" where
  "acao r = (case resp_headers r ''Access-Control-Allow-Origin'' of None \<Rightarrow> [] | Some v \<Rightarrow> v)"

text \<open>\<^verbatim>\<open>cors_header and not evil_cors\<close>: the empty string itself when \<^verbatim>\<open>cors_header\<close> is empty, a boolean otherwise.\<close>

definition cors_passed :: "string \<Rightarrow> string \<Rightarrow> pyval" where
  "cors_passed cors_header evil_cors =
     (if cors_header = [] then PStr cors_header else PBool (evil_cors = []))"

text \<open>No \<^verbatim>\<open>try\<close> here: a request that raises ends the function, and the caller, with the exception.\<close>

definition test_cors_headers :: "server \<Rightarrow> request list \<Rightarrow> (pyval \<times> request list) outcome" where
  "test_cors_headers srv log =
     (case srv log (cors_request allowed_origin) of
        Raises \<Rightarrow> Raises
      | Returns r1 \<Rightarrow>
          (case srv (log @ [cors_request allowed_origin]) (cors_request evil_origin) of
             Raises \<Rightarrow> Raises
           | Returns r2 \<Rightarrow>
               Returns (cors_passed (acao r1) (acao r2),
                        log @ [cors_request allowed_origin, cors_request evil_origin])))"

subsection \<open>test\_setup\_status\_auth\<close>

definition status_request :: request where
  "status_request = \<lparr> meth = GET, req_url = API_URL @ ''/api/setup/status'',
     json_payload = [], params = [], headers = [] \<rparr>"

text \<open>\<^verbatim>\<open>v == False\<close> on a value of \<^verbatim>\<open>json()\<close>: Python's \<^verbatim>\<open>False\<close> equals \<^verbatim>\<open>0\<close> too; a missing key gives \<^verbatim>\<open>None\<close>.\<close>

definition eq_False :: "json option \<Rightarrow> bool" where
  "eq_False v = (v = Some (JBool False) \<or> v = Some (JNum 0))"

definition is_generic :: "json \<Rightarrow> bool outcome" where
  "is_generic data =
     (case data of
        JObj kvs \<Rightarrow>
          if \<not> eq_False (map_of kvs ''completed'') then Returns False
          else (case map_of kvs ''steps'' of
                  None \<Rightarrow> Returns False
                | Some (JObj steps) \<Rightarrow> Returns (eq_False (map_of steps ''workspace''))
                | Some _ \<Rightarrow> Raises)
      | _ \<Rightarrow> Raises)"

definition test_setup_status_auth :: "server \<Rightarrow> request list \<Rightarrow> (bool \<times> request list) outcome" where
  "test_setup_status_auth srv log =
     (case srv log status_request of
        Raises \<Rightarrow> Raises
      | Returns r \<Rightarrow>
          (case json_body r of
             None \<Rightarrow> Raises
           | Some data \<Rightarrow>
               (case is_generic data of
                  Raises \<Rightarrow> Raises
                | Returns b \<Rightarrow> Returns (b, log @ [status_request]))))"

subsection \<open>test\_sql\_injection\_protection\<close>

definition payloads :: "string list" where
  "payloads = [ ''test'' @ [CHR 0x27] @ ''; DROP TABLE workspaces; --'',
                ''test%'' @ [CHR 0x27] @ '' OR '' @ [CHR 0x27] @ ''1'' @ [CHR 0x27] @ ''='' @ [CHR 0x27] @ ''1'',
                ''test.ilike.%admin%'' ]"

definition sql_request :: "string \<Rightarrow> request" where
  "sql_request p = \<lparr> meth = GET, req_url = API_URL @ ''/api/admin/workspaces'',
     json_payload = [], params = [(''search'', p)], headers = [] \<rparr>"

definition is_safe :: "response \<Rightarrow> bool" where
  "is_safe r = (status_code r \<noteq> 500)"

text \<open>One iteration: \<^verbatim>\<open>all_safe\<close> is cleared by an unsafe response and by nothing else.\<close>

definition sql_step :: "bool \<Rightarrow> response outcome \<Rightarrow> bool" where
  "sql_step all_safe out =
     (case out of
        Raises \<Rightarrow> all_safe
      | Returns r \<Rightarrow> if \<not> is_safe r then False else all_safe)"

fun sql_loop :: "server \<Rightarrow> string list \<Rightarrow> bool \<Rightarrow> request list \<Rightarrow> bool \<times> request list" where
  "sql_loop srv [] all_safe log = (all_safe, log)"
| "sql_loop srv (p # ps) all_safe log =
     sql_loop srv ps (sql_step all_safe (srv log (sql_request p))) (log @ [sql_request p])"

definition test_sql_injection_protection :: "server \<Rightarrow> request list \<Rightarrow> bool \<times> request list" where
  "test_sql_injection_protection srv log = sql_loop srv payloads True log"

subsection \<open>test\_with\_playwright\<close>

text \<open>
  The browser as the function sees it: \<open>goto u\<close> is \<^verbatim>\<open>page.goto(u)\<close> with the wait for
  network idle and the screenshot that follow it, giving \<^verbatim>\<open>page.url\<close> afterwards or
  raising; \<open>submit_count\<close> is \<^verbatim>\<open>submit_button.count()\<close>; \<open>click_submit\<close> is the click
  with its wait and screenshot; \<open>console_errors\<close> are the console messages of type error.
\<close>

record browser =
  launch :: "unit outcome"
  goto :: "string \<Rightarrow> string outcome"
  submit_count :: nat
  click_submit :: "unit outcome"
  console_errors :: "string list"

definition redirected_to_login :: "string \<Rightarrow> bool" where
  "redirected_to_login final_url = (sublist ''/auth'' final_url \<or> sublist ''/login'' final_url)"

text \<open>The function visits the login page three times, then the dashboard, and ends with \<^verbatim>\<open>return True\<close>.\<close>

definition test_with_playwright :: "browser \<Rightarrow> bool outcome" where
  "test_with_playwright b =
     (case launch b of Raises \<Rightarrow> Raises | Returns _ \<Rightarrow>
      (case goto b (DASHBOARD_URL @ ''/auth/login'') of Raises \<Rightarrow> Raises | Returns _ \<Rightarrow>
       (case goto b (DASHBOARD_URL @ ''/auth/login'') of Raises \<Rightarrow> Raises | Returns _ \<Rightarrow>
        (case goto b (DASHBOARD_URL @ ''/auth/login'') of Raises \<Rightarrow> Raises | Returns _ \<Rightarrow>
         (case (if submit_count b > 0 then click_submit b else Returns ()) of
            Raises \<Rightarrow> Raises
          | Returns _ \<Rightarrow>
              (case goto b (DASHBOARD_URL @ ''/dashboard'') of
                 Raises \<Rightarrow> Raises
               | Returns final_url \<Rightarrow> Returns True))))))"

text \<open>The tick or warning sign printed on the line \<^verbatim>\<open>Unauthenticated redirect\<close>.\<close>

definition redirect_line_ok :: "browser \<Rightarrow> bool outcome" where
  "redirect_line_ok b =
     (case goto b (DASHBOARD_URL @ ''/dashboard'') of
        Raises \<Rightarrow> Raises
      | Returns final_url \<Rightarrow> Returns (redirected_to_login final_url))"

subsection \<open>main\<close>

definition status_label :: "pyval \<Rightarrow> label" where
  "status_label passed = (if truthy passed then PASS else CHECK)"

definition exit_code :: "(string \<times> pyval) list \<Rightarrow> int" where
  "exit_code results = (if list_all truthy (map snd results) then 0 else 1)"

text \<open>
  The six probes in the order of the source. Any exception that leaves a probe leaves
  \<^verbatim>\<open>main\<close> too: nothing is printed after it and no value is returned.
\<close>

definition main_security :: "server \<Rightarrow> browser \<Rightarrow> ((string \<times> pyval) list \<times> int) outcome" where
  "main_security srv b =
     (case test_cors_headers srv [] of Raises \<Rightarrow> Raises | Returns (cors, log1) \<Rightarrow>
      (let (zod, log2) = test_zod_validation srv log1 in
       (case test_setup_status_auth srv log2 of Raises \<Rightarrow> Raises | Returns (setup, log3) \<Rightarrow>
        (let (sql, log4) = test_sql_injection_protection srv log3;
             (rate, log5) = test_rate_limiting srv log4 in
         (case test_with_playwright b of Raises \<Rightarrow> Raises | Returns pw \<Rightarrow>
            (let results =
                   [ (''CORS Headers'', cors),
                     (''Zod Validation'', PBool zod),
                     (''Setup Status Auth'', PBool setup),
                     (''SQL Injection Protection'', PBool sql),
                     (''Rate Limiting'', PBool rate),
                     (''Playwright Browser Tests'', PBool pw) ]
             in Returns (results, exit_code results)))))))"

definition summary :: "(string \<times> pyval) list \<Rightarrow> (string \<times> label) list" where
  "summary results = map (\<lambda>(test, passed). (test, status_label passed)) results"

section \<open>test\_ui\_production.py\<close>

text \<open>
  This module is not valid Python. Nine keyword arguments are written as JavaScript
  regular-expression literals: \<^verbatim>\<open>name=/sync/i\<close> at line 145, and the like at lines 179,
  223, 247, 273, 298, 331, 356 and 369. The interpreter rejects the file before its first
  statement runs, so \<^verbatim>\<open>main\<close> is never called: every run ends with a SyntaxError and
  exit status 1, nothing is printed, and the module has no function to embed.
\<close>

section \<open>The claims' own vocabulary\<close>

text \<open>
  The validation-error marker of a response body, as the specification words it: a
  \<^verbatim>\<open>code\<close> field equal to \<^verbatim>\<open>VALIDATION_ERROR\<close>, or an error message, the string in the
  \<^verbatim>\<open>error\<close> field, with \<^verbatim>\<open>Validation\<close> as a substring.
\<close>

definition validation_marker :: "response \<Rightarrow> bool" where
  "validation_marker r =
     (case json_body r of
        Some (JObj kvs) \<Rightarrow>
          map_of kvs ''code'' = Some (JStr ''VALIDATION_ERROR'')
          \<or> (case map_of kvs ''error'' of
                Some (JStr msg) \<Rightarrow> sublist ''Validation'' msg
              | _ \<Rightarrow> False)
      | _ \<Rightarrow> False)"

text \<open>
  What the code accepts beyond that marker: an \<^verbatim>\<open>error\<close> field that is no message but a
  list with the string \<^verbatim>\<open>Validation\<close> among its elements, or an object with it among
  its keys.
\<close>

definition error_names_validation :: "response \<Rightarrow> bool" where
  "error_names_validation r =
     (case json_body r of
        Some (JObj kvs) \<Rightarrow>
          (case map_of kvs ''error'' of
             Some (JArr xs) \<Rightarrow> JStr ''Validation'' \<in> set xs
           | Some (JObj m) \<Rightarrow> ''Validation'' \<in> fst ` set m
           | _ \<Rightarrow> False)
      | _ \<Rightarrow> False)"

text \<open>
  The verdict the specification gives one observation: inconclusive when the call raised,
  and otherwise pass or fail as the predicate decides.
\<close>

datatype verdict = V_PASS | V_FAIL | V_INCONCLUSIVE

definition spec_verdict :: "'a outcome \<Rightarrow> ('a \<Rightarrow> bool) \<Rightarrow> verdict" where
  "spec_verdict observation predicate =
     (case observation of
        Raises \<Rightarrow> V_INCONCLUSIVE
      | Returns obs \<Rightarrow> if predicate obs then V_PASS else V_FAIL)"

text \<open>A server-error status in the specification's sense: any 5xx code.\<close>

definition is_5xx :: "int \<Rightarrow> bool" where
  "is_5xx code = (500 \<le> code \<and> code \<le> 599)"

text \<open>The allow-origin header of a response reflects the origin that was sent.\<close>

definition reflects_origin :: "string \<Rightarrow> response \<Rightarrow> bool" where
  "reflects_origin origin r = (resp_headers r ''Access-Control-Allow-Origin'' = Some origin)"

section \<open>Concrete servers and browsers\<close>

definition plain_response :: "int \<Rightarrow> response" where
  "plain_response code = \<lparr> status_code = code, resp_headers = Map.empty, json_body = None \<rparr>"

text \<open>Nothing listens: every request raises a connection error.\<close>

definition server_down :: server where
  "server_down log req = Raises"

text \<open>Every request is answered, with the same status and no body.\<close>

definition server_const :: "int \<Rightarrow> server" where
  "server_const code log req = Returns (plain_response code)"

text \<open>A limiter that lets five requests through and answers 429 from the sixth on.\<close>

definition server_limit5 :: server where
  "server_limit5 log req =
     Returns (plain_response (if length (filter (\<lambda>q. q = req) log) < 5 then 401 else 429))"

text \<open>A server that reaches only its health and setup-status routes; every other request raises.\<close>

definition generic_status :: json where
  "generic_status = JObj [(''completed'', JBool False), (''steps'', JObj [(''workspace'', JBool False)])]"

definition server_partial :: server where
  "server_partial log req =
     (if meth req = OPTIONS then
        Returns \<lparr> status_code = 204,
                  resp_headers = (if headers req = [(''Origin'', allowed_origin)]
                                  then [''Access-Control-Allow-Origin'' \<mapsto> allowed_origin]
                                  else Map.empty),
                  json_body = None \<rparr>
      else if req = status_request then
        Returns \<lparr> status_code = 200, resp_headers = Map.empty, json_body = Some generic_status \<rparr>
      else Raises)"

text \<open>A server that sends one fixed allow-origin value to the allowed origin and none to any other.\<close>

definition fixed_origin_response :: response where
  "fixed_origin_response = \<lparr> status_code = 204,
     resp_headers = [''Access-Control-Allow-Origin'' \<mapsto> ''https://cluebase.ai''],
     json_body = None \<rparr>"

definition server_fixed_origin :: server where
  "server_fixed_origin log req =
     (if headers req = [(''Origin'', allowed_origin)] then Returns fixed_origin_response
      else Returns (plain_response 204))"

text \<open>A 400 response whose body names a validation failure.\<close>

definition validation_response :: response where
  "validation_response = \<lparr> status_code = 400, resp_headers = Map.empty,
     json_body = Some (JObj [(''error'', JStr ''Validation failed'')]) \<rparr>"

text \<open>A browser that redirects the dashboard to the login page, and one that serves it without a session.\<close>

definition browser_redirecting :: browser where
  "browser_redirecting = \<lparr> launch = Returns (),
     goto = (\<lambda>u. Returns (if u = DASHBOARD_URL @ ''/dashboard'' then DASHBOARD_URL @ ''/auth/login'' else u)),
     submit_count = 1, click_submit = Returns (), console_errors = [] \<rparr>"

definition browser_open :: browser where
  "browser_open = \<lparr> launch = Returns (), goto = (\<lambda>u. Returns u),
     submit_count = 1, click_submit = Returns (), console_errors = [] \<rparr>"

text \<open>A server that answers every request with the same response.\<close>

definition server_answering :: "response \<Rightarrow> server" where
  "server_answering r log req = Returns r"

text \<open>A 400 response whose \<^verbatim>\<open>error\<close> field is an object keyed by \<^verbatim>\<open>Validation\<close>.\<close>

definition keyed_error_response :: response where
  "keyed_error_response = \<lparr> status_code = 400, resp_headers = Map.empty,
     json_body = Some (JObj [(''error'', JObj [(''Validation'', JNum 1)])]) \<rparr>"

text \<open>
  A server that behaves on every route but the admin listing, which cannot be reached:
  it limits the sign-in, rejects malformed payloads as validation errors, answers the
  setup status generically and the allowed origin alone with an allow-origin header.
\<close>

definition server_sql_down :: server where
  "server_sql_down log req =
     (if meth req = OPTIONS then
        Returns \<lparr> status_code = 204,
                  resp_headers = (if headers req = [(''Origin'', allowed_origin)]
                                  then [''Access-Control-Allow-Origin'' \<mapsto> allowed_origin]
                                  else Map.empty),
                  json_body = None \<rparr>
      else if req = status_request then
        Returns \<lparr> status_code = 200, resp_headers = Map.empty, json_body = Some generic_status \<rparr>
      else if req = signin_request then Returns (plain_response 429)
      else if meth req = POST then Returns validation_response
      else Raises)"

text \<open>The requests made before the injection-safety probe starts.\<close>

definition log_before_sql :: "request list" where
  "log_before_sql =
     [cors_request allowed_origin, cors_request evil_origin] @ map zod_request tests @ [status_request]"

section \<open>The loops, unrolled\<close>

lemma rate_loop_eq:
  "rate_loop n srv results log =
     (results @ map (\<lambda>i. rate_attempt (srv (log @ replicate i signin_request) signin_request)) [0..<n],
      log @ replicate n signin_request)"
proof (induction n arbitrary: results log)
  case 0
  show ?case by simp
next
  case (Suc n)
  have "map (\<lambda>i. rate_attempt (srv (log @ replicate i signin_request) signin_request)) [0..<Suc n]
        = rate_attempt (srv log signin_request)
          # map (\<lambda>i. rate_attempt (srv ((log @ [signin_request]) @ replicate i signin_request) signin_request)) [0..<n]"
    by (simp add: upt_conv_Cons map_Suc_upt [symmetric] del: upt_Suc)
  then show ?case
    by (simp add: Suc.IH replicate_app_Cons_same del: upt_Suc)
qed

lemma zod_loop_fst:
  "fst (zod_loop srv ts a log) =
     (a \<and> (\<forall>i<length ts. zod_case_passed (ts ! i)
              (srv (log @ map zod_request (take i ts)) (zod_request (ts ! i)))))"
proof (induction ts arbitrary: a log)
  case Nil
  show ?case by simp
next
  case (Cons t ts)
  show ?case
    by (auto simp: Cons.IH All_less_Suc2)
qed

lemma zod_loop_snd: "snd (zod_loop srv ts a log) = log @ map zod_request ts"
  by (induction ts arbitrary: a log) simp_all

lemma sql_loop_fst:
  "fst (sql_loop srv ps a log) =
     (a \<and> (\<forall>i<length ps. \<forall>r. srv (log @ map sql_request (take i ps)) (sql_request (ps ! i)) = Returns r
              \<longrightarrow> is_safe r))"
proof (induction ps arbitrary: a log)
  case Nil
  show ?case by simp
next
  case (Cons p ps)
  show ?case
    by (auto simp: Cons.IH All_less_Suc2 sql_step_def split: outcome.splits)
qed

lemma sql_loop_snd: "snd (sql_loop srv ps a log) = log @ map sql_request ps"
  by (induction ps arbitrary: a log) simp_all

section \<open>Facts shared by the claims\<close>

lemma rate_results_eq:
  "rate_results srv log = map (\<lambda>i. rate_attempt (srv (log @ replicate i signin_request) signin_request)) [0..<7]"
  by (simp add: rate_results_def rate_loop_eq del: upt_Suc)

lemma test_rate_limiting_eq:
  "test_rate_limiting srv log = (Status 429 \<in> set (rate_results srv log), log @ replicate 7 signin_request)"
  by (simp add: test_rate_limiting_def rate_results_def rate_loop_eq del: upt_Suc)

lemma rate_results_nth:
  "i < 7 \<Longrightarrow> rate_results srv log ! i = rate_attempt (srv (log @ replicate i signin_request) signin_request)"
  by (simp add: rate_results_eq del: upt_Suc)

lemma rate_results_length: "length (rate_results srv log) = 7"
  by (simp add: rate_results_eq del: upt_Suc)

lemma tests_expected: "t \<in> set tests \<Longrightarrow> expected_code t = 400"
  by (auto simp: tests_def)

lemma zod_case_passed_iff:
  "expected_code t = 400 \<Longrightarrow>
   zod_case_passed t (Returns r) \<longleftrightarrow>
     (status_code r = expected_code t \<and> (validation_marker r \<or> error_names_validation r))"
  by (auto simp: zod_case_passed_def zod_try_def has_validation_error_def py_in_def
        validation_marker_def error_names_validation_def Let_def
        split: option.splits json.splits if_splits)

lemma zod_case_passed_Raises: "\<not> zod_case_passed t Raises"
  by (simp add: zod_case_passed_def zod_try_def)

lemma test_zod_validation_fst:
  "fst (test_zod_validation srv log) =
     (\<forall>i<length tests. zod_case_passed (tests ! i)
              (srv (log @ map zod_request (take i tests)) (zod_request (tests ! i))))"
  by (simp add: test_zod_validation_def zod_loop_fst)

lemma test_zod_validation_snd: "snd (test_zod_validation srv log) = log @ map zod_request tests"
  by (simp add: test_zod_validation_def zod_loop_snd)

lemma test_sql_fst:
  "fst (test_sql_injection_protection srv log) =
     (\<forall>i<length payloads. \<forall>r.
         srv (log @ map sql_request (take i payloads)) (sql_request (payloads ! i)) = Returns r
           \<longrightarrow> is_safe r)"
  by (simp add: test_sql_injection_protection_def sql_loop_fst)

lemma test_sql_snd: "snd (test_sql_injection_protection srv log) = log @ map sql_request payloads"
  by (simp add: test_sql_injection_protection_def sql_loop_snd)

lemma exit_code_zero_iff: "exit_code results = 0 \<longleftrightarrow> (\<forall>l \<in> set (summary results). snd l = PASS)"
  by (force simp: exit_code_def summary_def status_label_def list_all_iff case_prod_beta)

lemma exit_code_one_iff: "exit_code results = 1 \<longleftrightarrow> (\<exists>l \<in> set (summary results). snd l = CHECK)"
  by (force simp: exit_code_def summary_def status_label_def list_all_iff case_prod_beta)

lemma main_security_code: "main_security srv b = Returns (results, code) \<Longrightarrow> code = exit_code results"
  by (auto simp: main_security_def Let_def split: outcome.splits prod.splits)

lemma main_security_eq:
  "test_cors_headers srv [] = Returns (cors, log1) \<Longrightarrow>
   test_zod_validation srv log1 = (zod, log2) \<Longrightarrow>
   test_setup_status_auth srv log2 = Returns (setup, log3) \<Longrightarrow>
   test_sql_injection_protection srv log3 = (sql, log4) \<Longrightarrow>
   test_rate_limiting srv log4 = (rate, log5) \<Longrightarrow>
   test_with_playwright b = Returns pw \<Longrightarrow>
   main_security srv b =
     Returns ([ (''CORS Headers'', cors),
                (''Zod Validation'', PBool zod),
                (''Setup Status Auth'', PBool setup),
                (''SQL Injection Protection'', PBool sql),
                (''Rate Limiting'', PBool rate),
                (''Playwright Browser Tests'', PBool pw) ],
              if truthy cors \<and> zod \<and> setup \<and> sql \<and> rate \<and> pw then 0 else 1)"
  by (simp add: main_security_def exit_code_def)

lemma main_security_returns:
  "main_security srv b = Returns (results, code) \<Longrightarrow>
   \<exists>cors log1 setup log3 pw.
      test_cors_headers srv [] = Returns (cors, log1)
      \<and> test_setup_status_auth srv (snd (test_zod_validation srv log1)) = Returns (setup, log3)
      \<and> test_with_playwright b = Returns pw
      \<and> results =
          [ (''CORS Headers'', cors),
            (''Zod Validation'', PBool (fst (test_zod_validation srv log1))),
            (''Setup Status Auth'', PBool setup),
            (''SQL Injection Protection'', PBool (fst (test_sql_injection_protection srv log3))),
            (''Rate Limiting'',
               PBool (fst (test_rate_limiting srv (snd (test_sql_injection_protection srv log3))))),
            (''Playwright Browser Tests'', PBool pw) ]"
  by (auto simp: main_security_def Let_def split: outcome.splits prod.splits)

text \<open>
  The runs of \<^verbatim>\<open>test-security.py\<close> against \<open>server_partial\<close> and against
  \<open>server_sql_down\<close>, probe by probe.
\<close>

lemma test_cors_partial:
  "test_cors_headers server_partial log =
     Returns (PBool True, log @ [cors_request allowed_origin, cors_request evil_origin])"
  by (simp add: test_cors_headers_def server_partial_def cors_request_def allowed_origin_def
        evil_origin_def acao_def cors_passed_def)

lemma test_zod_partial: "test_zod_validation server_partial log = (False, log @ map zod_request tests)"
  by (simp add: test_zod_validation_def tests_def server_partial_def zod_request_def
        zod_case_passed_def zod_try_def status_request_def)

lemma test_setup_partial:
  "test_setup_status_auth server_partial log = Returns (True, log @ [status_request])"
  by (simp add: test_setup_status_auth_def server_partial_def status_request_def generic_status_def
        is_generic_def eq_False_def)

lemma test_sql_partial:
  "test_sql_injection_protection server_partial log = (True, log @ map sql_request payloads)"
  by (simp add: test_sql_injection_protection_def payloads_def server_partial_def sql_request_def
        sql_step_def status_request_def)

lemma test_rate_partial:
  "test_rate_limiting server_partial log = (False, log @ replicate 7 signin_request)"
  by (simp add: test_rate_limiting_eq rate_results_eq server_partial_def signin_request_def
        status_request_def rate_attempt_def upt_rec del: upt_Suc)

lemma playwright_redirecting: "test_with_playwright browser_redirecting = Returns True"
  by (simp add: test_with_playwright_def browser_redirecting_def)

lemma test_cors_sql_down:
  "test_cors_headers server_sql_down log =
     Returns (PBool True, log @ [cors_request allowed_origin, cors_request evil_origin])"
  by (simp add: test_cors_headers_def server_sql_down_def cors_request_def allowed_origin_def
        evil_origin_def acao_def cors_passed_def)

lemma test_zod_sql_down: "test_zod_validation server_sql_down log = (True, log @ map zod_request tests)"
  by (simp add: test_zod_validation_def tests_def server_sql_down_def zod_request_def
        zod_case_passed_def zod_try_def status_request_def signin_request_def
        validation_response_def has_validation_error_def py_in_def sublist_code)

lemma test_setup_sql_down:
  "test_setup_status_auth server_sql_down log = Returns (True, log @ [status_request])"
  by (simp add: test_setup_status_auth_def server_sql_down_def status_request_def generic_status_def
        is_generic_def eq_False_def)

lemma sql_request_sql_down: "server_sql_down log (sql_request p) = Raises"
  by (simp add: server_sql_down_def sql_request_def status_request_def signin_request_def)

lemma test_sql_sql_down:
  "test_sql_injection_protection server_sql_down log = (True, log @ map sql_request payloads)"
  by (simp add: test_sql_injection_protection_def payloads_def sql_request_sql_down sql_step_def)

lemma test_rate_sql_down:
  "test_rate_limiting server_sql_down log = (True, log @ replicate 7 signin_request)"
  by (simp add: test_rate_limiting_eq rate_results_eq server_sql_down_def signin_request_def
        status_request_def rate_attempt_def plain_response_def upt_rec del: upt_Suc)

section \<open>Transport errors (C1)\<close>

text \<open>
  C1, as amended. The scripts have two results, true and false, and no inconclusive one.
  In \<^verbatim>\<open>test_zod_validation\<close> a request that raises ends the \<^verbatim>\<open>try\<close> body before any
  check of the response is made, and the \<^verbatim>\<open>except\<close> branch sets \<^verbatim>\<open>all_passed\<close> to false:
  the probe returns false. In \<^verbatim>\<open>test_rate_limiting\<close> an attempt that raises is recorded as
  \<^verbatim>\<open>"error"\<close>, which is never a 429, and when all seven attempts raise the probe returns
  false.
\<close>

theorem C1_transport_error_fails:
  "(i < length tests
      \<and> srv (log @ map zod_request (take i tests)) (zod_request (tests ! i)) = Raises
    \<longrightarrow> zod_try (tests ! i) (srv (log @ map zod_request (take i tests)) (zod_request (tests ! i))) = Raises
        \<and> fst (test_zod_validation srv log) = False)
   \<and> (j < 7 \<and> srv (log @ replicate j signin_request) signin_request = Raises
    \<longrightarrow> rate_results srv log ! j = Error)
   \<and> ((\<forall>j<7. srv (log @ replicate j signin_request) signin_request = Raises)
    \<longrightarrow> fst (test_rate_limiting srv log) = False)"
proof (intro conjI impI)
  assume a: "i < length tests
      \<and> srv (log @ map zod_request (take i tests)) (zod_request (tests ! i)) = Raises"
  then show "zod_try (tests ! i) (srv (log @ map zod_request (take i tests)) (zod_request (tests ! i))) = Raises"
    by (simp add: zod_try_def)
  from a have "\<not> zod_case_passed (tests ! i)
      (srv (log @ map zod_request (take i tests)) (zod_request (tests ! i)))"
    by (simp add: zod_case_passed_Raises)
  with a show "fst (test_zod_validation srv log) = False"
    unfolding test_zod_validation_fst by auto
next
  assume "j < 7 \<and> srv (log @ replicate j signin_request) signin_request = Raises"
  then show "rate_results srv log ! j = Error"
    by (simp add: rate_results_nth rate_attempt_def)
next
  assume a: "\<forall>j<7. srv (log @ replicate j signin_request) signin_request = Raises"
  have "Status 429 \<notin> set (rate_results srv log)"
  proof
    assume "Status 429 \<in> set (rate_results srv log)"
    then obtain k where k: "k < 7" "rate_results srv log ! k = Status 429"
      by (auto simp: in_set_conv_nth rate_results_length)
    with a show False by (simp add: rate_results_nth rate_attempt_def)
  qed
  then show "fst (test_rate_limiting srv log) = False"
    by (simp add: test_rate_limiting_eq)
qed

theorem C1_transport_error_fails_witness:
  "server_down ([] @ map zod_request (take 0 tests)) (zod_request (tests ! 0)) = Raises
   \<and> fst (test_zod_validation server_down []) = False
   \<and> rate_results server_down [] ! 0 = Error
   \<and> fst (test_rate_limiting server_down []) = False"
proof -
  have a: "0 < length tests
      \<and> server_down ([] @ map zod_request (take 0 tests)) (zod_request (tests ! 0)) = Raises"
    by (simp add: server_down_def tests_def)
  have b: "(0::nat) < 7 \<and> server_down ([] @ replicate 0 signin_request) signin_request = Raises"
    by (simp add: server_down_def)
  have c: "\<forall>j<7. server_down ([] @ replicate j signin_request) signin_request = Raises"
    by (simp add: server_down_def)
  show ?thesis
    using a b c C1_transport_error_fails [of 0 server_down "[]" 0] by simp
qed

text \<open>
  C1 as stated fails: with the server down every validation request raises, and the probe
  returns false, the same value it returns when the server answers 200 to every malformed
  payload. The summary labels it CHECK and the exit code is 1.
\<close>

theorem C1_counterexample:
  "fst (test_zod_validation server_down []) = False
   \<and> fst (test_zod_validation server_down []) = fst (test_zod_validation (server_const 200) [])
   \<and> status_label (PBool (fst (test_zod_validation server_down []))) = CHECK
   \<and> exit_code [(''Zod Validation'', PBool (fst (test_zod_validation server_down [])))] = 1"
  by (simp add: test_zod_validation_def tests_def server_down_def server_const_def
        zod_case_passed_def zod_try_def plain_response_def status_label_def exit_code_def)

section \<open>Exceptions and the run (C2)\<close>

text \<open>
  C2, as amended. In \<^verbatim>\<open>test-security.py\<close> the requests of the validation, injection and
  rate-limit probes are guarded inside the probes, and an exception there never ends the
  run: when the two CORS requests, the setup-status probe and the browser probe complete,
  \<^verbatim>\<open>main\<close> returns a report that lists the six probes once each, in the declared order,
  every one with the value the probe computed, whatever the guarded requests did.
\<close>

theorem C2_guarded_exceptions_contained:
  "srv [] (cors_request allowed_origin) = Returns r1
     \<and> srv [cors_request allowed_origin] (cors_request evil_origin) = Returns r2
     \<and> test_setup_status_auth srv
          ([cors_request allowed_origin, cors_request evil_origin] @ map zod_request tests)
         = Returns (setup, log3)
     \<and> test_with_playwright b = Returns pw
   \<longrightarrow> (\<exists>code. main_security srv b =
          Returns ([ (''CORS Headers'', cors_passed (acao r1) (acao r2)),
                     (''Zod Validation'',
                        PBool (fst (test_zod_validation srv
                          [cors_request allowed_origin, cors_request evil_origin]))),
                     (''Setup Status Auth'', PBool setup),
                     (''SQL Injection Protection'',
                        PBool (fst (test_sql_injection_protection srv log3))),
                     (''Rate Limiting'',
                        PBool (fst (test_rate_limiting srv (log3 @ map sql_request payloads)))),
                     (''Playwright Browser Tests'', PBool pw) ], code))"
proof
  assume a: "srv [] (cors_request allowed_origin) = Returns r1
     \<and> srv [cors_request allowed_origin] (cors_request evil_origin) = Returns r2
     \<and> test_setup_status_auth srv
          ([cors_request allowed_origin, cors_request evil_origin] @ map zod_request tests)
         = Returns (setup, log3)
     \<and> test_with_playwright b = Returns pw"
  let ?log1 = "[cors_request allowed_origin, cors_request evil_origin]"
  have cors: "test_cors_headers srv [] = Returns (cors_passed (acao r1) (acao r2), ?log1)"
    using a by (simp add: test_cors_headers_def)
  have zod: "test_zod_validation srv ?log1 =
      (fst (test_zod_validation srv ?log1), ?log1 @ map zod_request tests)"
    by (simp add: prod_eq_iff test_zod_validation_snd)
  have sql: "test_sql_injection_protection srv log3 =
      (fst (test_sql_injection_protection srv log3), log3 @ map sql_request payloads)"
    by (simp add: prod_eq_iff test_sql_snd)
  have rate: "test_rate_limiting srv (log3 @ map sql_request payloads) =
      (fst (test_rate_limiting srv (log3 @ map sql_request payloads)),
       snd (test_rate_limiting srv (log3 @ map sql_request payloads)))"
    by simp
  from a have stat: "test_setup_status_auth srv (?log1 @ map zod_request tests) = Returns (setup, log3)"
    and pw: "test_with_playwright b = Returns pw" by simp_all
  show "\<exists>code. main_security srv b =
          Returns ([ (''CORS Headers'', cors_passed (acao r1) (acao r2)),
                     (''Zod Validation'',
                        PBool (fst (test_zod_validation srv
                          [cors_request allowed_origin, cors_request evil_origin]))),
                     (''Setup Status Auth'', PBool setup),
                     (''SQL Injection Protection'',
                        PBool (fst (test_sql_injection_protection srv log3))),
                     (''Rate Limiting'',
                        PBool (fst (test_rate_limiting srv (log3 @ map sql_request payloads)))),
                     (''Playwright Browser Tests'', PBool pw) ], code)"
    using main_security_eq [OF cors zod stat sql rate pw] by blast
qed

theorem C2_guarded_exceptions_contained_witness:
  "server_partial [] signin_request = Raises
   \<and> server_partial [] (sql_request (payloads ! 0)) = Raises
   \<and> server_partial [] (zod_request (tests ! 0)) = Raises
   \<and> (\<exists>code. main_security server_partial browser_redirecting =
          Returns ([ (''CORS Headers'', PBool True),
                     (''Zod Validation'', PBool False),
                     (''Setup Status Auth'', PBool True),
                     (''SQL Injection Protection'', PBool True),
                     (''Rate Limiting'', PBool False),
                     (''Playwright Browser Tests'', PBool True) ], code))"
proof -
  let ?r1 = "\<lparr> status_code = 204, resp_headers = [''Access-Control-Allow-Origin'' \<mapsto> allowed_origin], json_body = None \<rparr>"
  let ?r2 = "\<lparr> status_code = 204, resp_headers = Map.empty, json_body = None \<rparr>"
  let ?log2 = "[cors_request allowed_origin, cors_request evil_origin] @ map zod_request tests"
  have h1: "server_partial [] (cors_request allowed_origin) = Returns ?r1"
    by (simp add: server_partial_def cors_request_def)
  have h2: "server_partial [cors_request allowed_origin] (cors_request evil_origin) = Returns ?r2"
    by (simp add: server_partial_def cors_request_def allowed_origin_def evil_origin_def)
  have h3: "test_setup_status_auth server_partial ?log2 = Returns (True, ?log2 @ [status_request])"
    by (rule test_setup_partial)
  have h5: "server_partial [] signin_request = Raises"
    by (simp add: server_partial_def signin_request_def status_request_def)
  have h6: "server_partial [] (sql_request (payloads ! 0)) = Raises"
    by (simp add: server_partial_def sql_request_def status_request_def)
  have h7: "server_partial [] (zod_request (tests ! 0)) = Raises"
    by (simp add: server_partial_def zod_request_def tests_def status_request_def)
  have c: "cors_passed (acao ?r1) (acao ?r2) = PBool True"
    by (simp add: cors_passed_def acao_def allowed_origin_def)
  show ?thesis
    using h1 h2 h3 h5 h6 h7 c playwright_redirecting
      C2_guarded_exceptions_contained [of server_partial ?r1 ?r2 True "?log2 @ [status_request]"
         browser_redirecting True]
    by (simp add: test_zod_partial test_sql_partial test_rate_partial)
qed

text \<open>
  C2 as stated fails: \<^verbatim>\<open>test_cors_headers\<close> has no guard around its requests and
  \<^verbatim>\<open>main\<close> has none around its probes. With the server down the first request raises,
  the exception leaves \<^verbatim>\<open>main\<close>, no later probe runs and no report is returned.
\<close>

theorem C2_counterexample:
  "server_down [] (cors_request allowed_origin) = Raises
   \<and> test_cors_headers server_down [] = Raises
   \<and> main_security server_down browser_redirecting = Raises"
  by (simp add: server_down_def test_cors_headers_def main_security_def)

section \<open>The exit code (C3)\<close>

text \<open>
  C3, as amended. \<^verbatim>\<open>test-security.py\<close> has the labels PASS and CHECK and no inconclusive
  verdict. When no exception leaves a probe, \<^verbatim>\<open>main\<close> reports each of the six probes with
  the value it returned, and the exit code is 0 exactly when all six values are truthy,
  that is when every label is PASS; it is 1 otherwise, that is when some label is CHECK.
  Whenever \<^verbatim>\<open>main\<close> returns, its report is that of the six probes and its exit code
  follows the labels in this way.
\<close>

theorem C3_exit_code_follows_probes:
  "(test_cors_headers srv [] = Returns (cors, log1)
      \<and> test_zod_validation srv log1 = (zod, log2)
      \<and> test_setup_status_auth srv log2 = Returns (setup, log3)
      \<and> test_sql_injection_protection srv log3 = (sql, log4)
      \<and> test_rate_limiting srv log4 = (rate, log5)
      \<and> test_with_playwright b = Returns pw
    \<longrightarrow> main_security srv b =
          Returns ([ (''CORS Headers'', cors),
                     (''Zod Validation'', PBool zod),
                     (''Setup Status Auth'', PBool setup),
                     (''SQL Injection Protection'', PBool sql),
                     (''Rate Limiting'', PBool rate),
                     (''Playwright Browser Tests'', PBool pw) ],
                   if truthy cors \<and> zod \<and> setup \<and> sql \<and> rate \<and> pw then 0 else 1))
   \<and> (main_security srv b = Returns (results, code)
    \<longrightarrow> (code = 0 \<longleftrightarrow> (\<forall>l \<in> set (summary results). snd l = PASS))
        \<and> (code = 1 \<longleftrightarrow> (\<exists>l \<in> set (summary results). snd l = CHECK))
        \<and> (\<exists>cors log1 setup log3 pw.
              test_cors_headers srv [] = Returns (cors, log1)
              \<and> test_setup_status_auth srv (snd (test_zod_validation srv log1)) = Returns (setup, log3)
              \<and> test_with_playwright b = Returns pw
              \<and> results =
                  [ (''CORS Headers'', cors),
                    (''Zod Validation'', PBool (fst (test_zod_validation srv log1))),
                    (''Setup Status Auth'', PBool setup),
                    (''SQL Injection Protection'', PBool (fst (test_sql_injection_protection srv log3))),
                    (''Rate Limiting'',
                       PBool (fst (test_rate_limiting srv (snd (test_sql_injection_protection srv log3))))),
                    (''Playwright Browser Tests'', PBool pw) ]))"
proof (intro conjI impI)
  assume "test_cors_headers srv [] = Returns (cors, log1)
      \<and> test_zod_validation srv log1 = (zod, log2)
      \<and> test_setup_status_auth srv log2 = Returns (setup, log3)
      \<and> test_sql_injection_protection srv log3 = (sql, log4)
      \<and> test_rate_limiting srv log4 = (rate, log5)
      \<and> test_with_playwright b = Returns pw"
  then show "main_security srv b =
          Returns ([ (''CORS Headers'', cors),
                     (''Zod Validation'', PBool zod),
                     (''Setup Status Auth'', PBool setup),
                     (''SQL Injection Protection'', PBool sql),
                     (''Rate Limiting'', PBool rate),
                     (''Playwright Browser Tests'', PBool pw) ],
                   if truthy cors \<and> zod \<and> setup \<and> sql \<and> rate \<and> pw then 0 else 1)"
    by (simp add: main_security_eq)
next
  assume m: "main_security srv b = Returns (results, code)"
  show "code = 0 \<longleftrightarrow> (\<forall>l \<in> set (summary results). snd l = PASS)"
    using main_security_code [OF m] by (simp add: exit_code_zero_iff)
  show "code = 1 \<longleftrightarrow> (\<exists>l \<in> set (summary results). snd l = CHECK)"
    using main_security_code [OF m] by (simp add: exit_code_one_iff)
  show "\<exists>cors log1 setup log3 pw.
              test_cors_headers srv [] = Returns (cors, log1)
              \<and> test_setup_status_auth srv (snd (test_zod_validation srv log1)) = Returns (setup, log3)
              \<and> test_with_playwright b = Returns pw
              \<and> results =
                  [ (''CORS Headers'', cors),
                    (''Zod Validation'', PBool (fst (test_zod_validation srv log1))),
                    (''Setup Status Auth'', PBool setup),
                    (''SQL Injection Protection'', PBool (fst (test_sql_injection_protection srv log3))),
                    (''Rate Limiting'',
                       PBool (fst (test_rate_limiting srv (snd (test_sql_injection_protection srv log3))))),
                    (''Playwright Browser Tests'', PBool pw) ]"
    by (rule main_security_returns [OF m])
qed

theorem C3_exit_code_follows_probes_witness:
  "main_security server_partial browser_redirecting =
     Returns ([ (''CORS Headers'', PBool True),
                (''Zod Validation'', PBool False),
                (''Setup Status Auth'', PBool True),
                (''SQL Injection Protection'', PBool True),
                (''Rate Limiting'', PBool False),
                (''Playwright Browser Tests'', PBool True) ], 1)
   \<and> (''Zod Validation'', CHECK)
        \<in> set (summary [ (''CORS Headers'', PBool True),
                (''Zod Validation'', PBool False),
                (''Setup Status Auth'', PBool True),
                (''SQL Injection Protection'', PBool True),
                (''Rate Limiting'', PBool False),
                (''Playwright Browser Tests'', PBool True) ])"
proof -
  let ?l1 = "[cors_request allowed_origin, cors_request evil_origin]"
  let ?l2 = "?l1 @ map zod_request tests"
  let ?l3 = "?l2 @ [status_request]"
  let ?l4 = "?l3 @ map sql_request payloads"
  let ?l5 = "?l4 @ replicate 7 signin_request"
  have h: "test_cors_headers server_partial [] = Returns (PBool True, ?l1)
      \<and> test_zod_validation server_partial ?l1 = (False, ?l2)
      \<and> test_setup_status_auth server_partial ?l2 = Returns (True, ?l3)
      \<and> test_sql_injection_protection server_partial ?l3 = (True, ?l4)
      \<and> test_rate_limiting server_partial ?l4 = (False, ?l5)
      \<and> test_with_playwright browser_redirecting = Returns True"
    by (simp add: test_cors_partial test_zod_partial test_setup_partial test_sql_partial
          test_rate_partial playwright_redirecting)
  show ?thesis
    using h C3_exit_code_follows_probes [of server_partial "PBool True" ?l1 False ?l2 True ?l3
        True ?l4 False ?l5 browser_redirecting True]
    by (simp add: summary_def status_label_def)
qed

text \<open>
  C3 as stated fails: the admin listing cannot be reached, so each request of the
  injection-safety probe raises and the specification's verdict of each observation is
  inconclusive. The script labels all six probes PASS and the exit code is 0.
\<close>

theorem C3_counterexample:
  "spec_verdict (server_sql_down (log_before_sql @ map sql_request (take 0 payloads))
                   (sql_request (payloads ! 0))) is_safe = V_INCONCLUSIVE
   \<and> spec_verdict (server_sql_down (log_before_sql @ map sql_request (take 1 payloads))
                   (sql_request (payloads ! 1))) is_safe = V_INCONCLUSIVE
   \<and> spec_verdict (server_sql_down (log_before_sql @ map sql_request (take 2 payloads))
                   (sql_request (payloads ! 2))) is_safe = V_INCONCLUSIVE
   \<and> main_security server_sql_down browser_redirecting =
       Returns ([ (''CORS Headers'', PBool True),
                  (''Zod Validation'', PBool True),
                  (''Setup Status Auth'', PBool True),
                  (''SQL Injection Protection'', PBool True),
                  (''Rate Limiting'', PBool True),
                  (''Playwright Browser Tests'', PBool True) ], 0)
   \<and> summary [(''SQL Injection Protection'', PBool True)] = [(''SQL Injection Protection'', PASS)]"
  by (simp add: spec_verdict_def sql_request_sql_down main_security_def test_cors_sql_down
        test_zod_sql_down test_setup_sql_down test_sql_sql_down test_rate_sql_down
        playwright_redirecting exit_code_def summary_def status_label_def)

section \<open>The rate-limit probe (C4)\<close>

text \<open>
  C4. \<^verbatim>\<open>test_rate_limiting\<close> sends the same sign-in request seven times, records one
  outcome per attempt, and returns true exactly when one of the seven recorded outcomes is
  the status 429.
\<close>

theorem C4_rate_limit:
  "snd (test_rate_limiting srv log) = log @ replicate 7 signin_request
   \<and> length (rate_results srv log) = 7
   \<and> (\<forall>i<7. rate_results srv log ! i = rate_attempt (srv (log @ replicate i signin_request) signin_request))
   \<and> (fst (test_rate_limiting srv log) \<longleftrightarrow> (\<exists>i<7. rate_results srv log ! i = Status 429))"
proof -
  have len: "length (rate_results srv log) = 7"
    by (simp add: rate_results_eq del: upt_Suc)
  have nth: "\<forall>i<7. rate_results srv log ! i = rate_attempt (srv (log @ replicate i signin_request) signin_request)"
    by (simp add: rate_results_eq del: upt_Suc)
  have "fst (test_rate_limiting srv log) \<longleftrightarrow> Status 429 \<in> set (rate_results srv log)"
    by (simp add: test_rate_limiting_eq)
  also have "\<dots> \<longleftrightarrow> (\<exists>i<7. rate_results srv log ! i = Status 429)"
    using len by (auto simp: in_set_conv_nth)
  finally show ?thesis
    using len nth by (simp add: test_rate_limiting_eq)
qed

theorem C4_rate_limit_witness:
  "rate_results server_limit5 [] = [Status 401, Status 401, Status 401, Status 401, Status 401, Status 429, Status 429]
   \<and> fst (test_rate_limiting server_limit5 []) 
   \<and> (\<exists>i<7. rate_results server_limit5 [] ! i = Status 429)
   \<and> \<not> fst (test_rate_limiting (server_const 401) [])"
proof -
  have r: "rate_results server_limit5 [] = [Status 401, Status 401, Status 401, Status 401, Status 401, Status 429, Status 429]"
    by (simp add: rate_results_eq server_limit5_def rate_attempt_def plain_response_def upt_rec del: upt_Suc)
  have "rate_results server_limit5 [] ! 5 = Status 429" by (simp add: r)
  then have ex: "\<exists>i<7. rate_results server_limit5 [] ! i = Status 429" by (intro exI [of _ 5]) simp
  have c: "\<not> fst (test_rate_limiting (server_const 401) [])"
    by (simp add: test_rate_limiting_eq rate_results_eq server_const_def rate_attempt_def
          plain_response_def upt_rec del: upt_Suc)
  show ?thesis
    using r ex c C4_rate_limit [of server_limit5 "[]"] by simp
qed

section \<open>The input-validation probe (C5)\<close>

text \<open>
  C5, as amended. For each of the five cases of \<^verbatim>\<open>test_zod_validation\<close>, a response
  passes exactly when its status is the expected one and its body is a JSON object that
  carries the validation marker, or whose \<^verbatim>\<open>error\<close> field is a list with the string
  \<^verbatim>\<open>Validation\<close> as an element or an object with it as a key (Python's \<^verbatim>\<open>in\<close> tests
  membership there). A response with the expected status and none of these makes the
  probe return false.
\<close>

theorem C5_marker_or_membership:
  "t \<in> set tests \<longrightarrow>
     (zod_case_passed t (Returns r) \<longleftrightarrow>
        status_code r = expected_code t \<and> (validation_marker r \<or> error_names_validation r))
   \<and> (i < length tests
        \<and> srv (log @ map zod_request (take i tests)) (zod_request (tests ! i)) = Returns r
        \<and> status_code r = expected_code (tests ! i)
        \<and> \<not> validation_marker r \<and> \<not> error_names_validation r
      \<longrightarrow> fst (test_zod_validation srv log) = False)"
proof (intro impI conjI)
  assume "t \<in> set tests"
  then show "zod_case_passed t (Returns r) \<longleftrightarrow>
      status_code r = expected_code t \<and> (validation_marker r \<or> error_names_validation r)"
    by (simp add: tests_expected zod_case_passed_iff)
next
  assume a: "i < length tests
        \<and> srv (log @ map zod_request (take i tests)) (zod_request (tests ! i)) = Returns r
        \<and> status_code r = expected_code (tests ! i)
        \<and> \<not> validation_marker r \<and> \<not> error_names_validation r"
  then have "tests ! i \<in> set tests" by simp
  then have "\<not> zod_case_passed (tests ! i) (Returns r)"
    using a by (simp add: tests_expected zod_case_passed_iff)
  then show "fst (test_zod_validation srv log) = False"
    using a unfolding test_zod_validation_fst by auto
qed

theorem C5_marker_or_membership_witness:
  "hd tests \<in> set tests
   \<and> zod_case_passed (hd tests) (Returns validation_response)
   \<and> status_code validation_response = expected_code (hd tests)
   \<and> validation_marker validation_response
   \<and> \<not> zod_case_passed (hd tests) (Returns (plain_response 400))
   \<and> fst (test_zod_validation (server_const 400) []) = False"
proof -
  have h: "hd tests \<in> set tests" by (simp add: tests_def)
  have e: "status_code validation_response = expected_code (hd tests)"
    by (simp add: tests_def validation_response_def)
  have m: "validation_marker validation_response"
    by (simp add: validation_marker_def validation_response_def sublist_code)
  have n: "\<not> validation_marker (plain_response 400) \<and> \<not> error_names_validation (plain_response 400)"
    by (simp add: validation_marker_def error_names_validation_def plain_response_def)
  have e': "status_code (plain_response 400) = expected_code (hd tests)"
    by (simp add: tests_def plain_response_def)
  have i: "0 < length tests
        \<and> server_const 400 ([] @ map zod_request (take 0 tests)) (zod_request (tests ! 0)) = Returns (plain_response 400)
        \<and> status_code (plain_response 400) = expected_code (tests ! 0)
        \<and> \<not> validation_marker (plain_response 400) \<and> \<not> error_names_validation (plain_response 400)"
    using n by (simp add: tests_def server_const_def plain_response_def)
  show ?thesis
    using h e m n e' i
      C5_marker_or_membership [of "hd tests" validation_response 0 "server_const 400" "[]"]
      C5_marker_or_membership [of "hd tests" "plain_response 400" 0 "server_const 400" "[]"]
    by simp
qed

text \<open>
  C5 as stated fails: a 400 response whose \<^verbatim>\<open>error\<close> field is an object with the key
  \<^verbatim>\<open>Validation\<close> has no \<^verbatim>\<open>code\<close> field and no error message with that substring, and
  it passes every case: a server that answers so passes the probe.
\<close>

theorem C5_counterexample:
  "hd tests \<in> set tests
   \<and> status_code keyed_error_response = expected_code (hd tests)
   \<and> \<not> validation_marker keyed_error_response
   \<and> zod_case_passed (hd tests) (Returns keyed_error_response)
   \<and> fst (test_zod_validation (server_answering keyed_error_response) []) = True"
  by (simp add: tests_def keyed_error_response_def validation_marker_def zod_case_passed_def
        zod_try_def has_validation_error_def py_in_def test_zod_validation_def
        server_answering_def)

section \<open>The origin-isolation probe (C6)\<close>

text \<open>
  C6, as amended. When both OPTIONS requests complete, \<^verbatim>\<open>test_cors_headers\<close> is labelled
  PASS exactly when the response to the allowed origin has a non-empty
  \<^verbatim>\<open>Access-Control-Allow-Origin\<close> value, whatever that value is, and the response to the
  disallowed origin has none or an empty one.
\<close>

theorem C6_cors_nonempty_header:
  "srv log (cors_request allowed_origin) = Returns r1 \<and>
   srv (log @ [cors_request allowed_origin]) (cors_request evil_origin) = Returns r2
   \<longrightarrow> (\<exists>passed. test_cors_headers srv log =
              Returns (passed, log @ [cors_request allowed_origin, cors_request evil_origin])
          \<and> (status_label passed = PASS \<longleftrightarrow> acao r1 \<noteq> [] \<and> acao r2 = []))"
  by (auto simp: test_cors_headers_def cors_passed_def status_label_def)

theorem C6_cors_nonempty_header_witness:
  "server_partial [] (cors_request allowed_origin)
      = Returns \<lparr> status_code = 204, resp_headers = [''Access-Control-Allow-Origin'' \<mapsto> allowed_origin], json_body = None \<rparr>
   \<and> server_partial ([] @ [cors_request allowed_origin]) (cors_request evil_origin)
      = Returns \<lparr> status_code = 204, resp_headers = Map.empty, json_body = None \<rparr>
   \<and> test_cors_headers server_partial [] =
        Returns (PBool True, [cors_request allowed_origin, cors_request evil_origin])"
proof -
  let ?r1 = "\<lparr> status_code = 204, resp_headers = [''Access-Control-Allow-Origin'' \<mapsto> allowed_origin], json_body = None \<rparr>"
  let ?r2 = "\<lparr> status_code = 204, resp_headers = Map.empty, json_body = None \<rparr>"
  have a: "server_partial [] (cors_request allowed_origin) = Returns ?r1"
    by (simp add: server_partial_def cors_request_def)
  have b: "server_partial ([] @ [cors_request allowed_origin]) (cors_request evil_origin) = Returns ?r2"
    by (simp add: server_partial_def cors_request_def allowed_origin_def evil_origin_def)
  have c: "acao ?r1 \<noteq> [] \<and> acao ?r2 = []"
    by (simp add: acao_def allowed_origin_def)
  from C6_cors_nonempty_header [of server_partial "[]" ?r1 ?r2] a b c
  obtain passed where p: "test_cors_headers server_partial [] =
              Returns (passed, [] @ [cors_request allowed_origin, cors_request evil_origin])"
     and q: "status_label passed = PASS" by auto
  have "test_cors_headers server_partial [] = Returns (PBool True, [cors_request allowed_origin, cors_request evil_origin])"
    by (simp add: test_cors_headers_def server_partial_def cors_request_def allowed_origin_def
        evil_origin_def acao_def cors_passed_def)
  with a b show ?thesis by simp
qed

text \<open>
  C6 as stated fails: a server that answers the allowed origin with a fixed allow-origin
  value, not the origin it was sent, and the other origin with none, passes.
\<close>

theorem C6_counterexample:
  "test_cors_headers server_fixed_origin [] =
      Returns (PBool True, [cors_request allowed_origin, cors_request evil_origin])
   \<and> status_label (PBool True) = PASS
   \<and> server_fixed_origin [] (cors_request allowed_origin) = Returns fixed_origin_response
   \<and> \<not> reflects_origin allowed_origin fixed_origin_response"
  by (simp add: test_cors_headers_def server_fixed_origin_def cors_request_def allowed_origin_def
        evil_origin_def acao_def cors_passed_def fixed_origin_response_def plain_response_def
        status_label_def reflects_origin_def)

section \<open>The injection-safety probe (C7)\<close>

text \<open>
  C7, as amended. A response is judged safe exactly when its status is not 500, and
  \<^verbatim>\<open>test_sql_injection_protection\<close> returns true exactly when no payload's request was
  answered with status 500.
\<close>

theorem C7_safe_unless_500:
  "(is_safe r \<longleftrightarrow> status_code r \<noteq> 500)
   \<and> (fst (test_sql_injection_protection srv log) \<longleftrightarrow>
        (\<forall>i<length payloads. \<forall>r'.
           srv (log @ map sql_request (take i payloads)) (sql_request (payloads ! i)) = Returns r'
             \<longrightarrow> status_code r' \<noteq> 500))"
  by (simp add: test_sql_fst is_safe_def)

theorem C7_safe_unless_500_witness:
  "is_safe (plain_response 401) \<and> \<not> is_safe (plain_response 500)
   \<and> fst (test_sql_injection_protection (server_const 401) [])
   \<and> \<not> fst (test_sql_injection_protection (server_const 500) [])"
proof -
  have a: "\<forall>i<length payloads. \<forall>r'.
           server_const 401 ([] @ map sql_request (take i payloads)) (sql_request (payloads ! i)) = Returns r'
             \<longrightarrow> status_code r' \<noteq> 500"
    by (auto simp: server_const_def plain_response_def)
  have b: "\<not> (\<forall>i<length payloads. \<forall>r'.
           server_const 500 ([] @ map sql_request (take i payloads)) (sql_request (payloads ! i)) = Returns r'
             \<longrightarrow> status_code r' \<noteq> 500)"
    by (auto simp: server_const_def plain_response_def payloads_def)
  show ?thesis
    using a b C7_safe_unless_500 [of "plain_response 401" "server_const 401" "[]"]
      C7_safe_unless_500 [of "plain_response 500" "server_const 500" "[]"]
    by (simp add: plain_response_def)
qed

text \<open>
  C7 as stated fails: the status 503 is a server error, it is judged safe, and a server
  that answers 503 to every payload passes the probe.
\<close>

theorem C7_counterexample:
  "is_5xx (status_code (plain_response 503))
   \<and> is_safe (plain_response 503)
   \<and> fst (test_sql_injection_protection (server_const 503) []) = True"
  by (simp add: is_5xx_def is_safe_def plain_response_def test_sql_injection_protection_def
        payloads_def sql_step_def server_const_def)

section \<open>The unauthenticated redirect (C8)\<close>

text \<open>
  C8. A browser that serves the dashboard without a session ends on a URL with neither
  \<^verbatim>\<open>/auth\<close> nor \<^verbatim>\<open>/login\<close> in it: the redirect line is printed with the warning sign, and
  \<^verbatim>\<open>test_with_playwright\<close> returns true all the same, which the summary labels PASS.
\<close>

theorem C8_redirect_ignored:
  "goto browser_open (DASHBOARD_URL @ ''/dashboard'') = Returns ''http://localhost:3001/dashboard''
   \<and> \<not> redirected_to_login ''http://localhost:3001/dashboard''
   \<and> redirect_line_ok browser_open = Returns False
   \<and> test_with_playwright browser_open = Returns True
   \<and> status_label (PBool True) = PASS"
  by (simp add: browser_open_def DASHBOARD_URL_def redirected_to_login_def redirect_line_ok_def
        test_with_playwright_def status_label_def sublist_code)

section \<open>Exceptions in the injection-safety probe (C9)\<close>

text \<open>
  C9. The \<^verbatim>\<open>except\<close> branch of \<^verbatim>\<open>test_sql_injection_protection\<close> leaves \<^verbatim>\<open>all_safe\<close>
  as it was, and when every request raises the probe returns true and is labelled PASS.
\<close>

theorem C9_sql_exception_passes:
  "sql_step all_safe Raises = all_safe
   \<and> ((\<forall>i<length payloads.
          srv (log @ map sql_request (take i payloads)) (sql_request (payloads ! i)) = Raises)
        \<longrightarrow> fst (test_sql_injection_protection srv log) = True
            \<and> status_label (PBool (fst (test_sql_injection_protection srv log))) = PASS)"
  by (simp add: sql_step_def test_sql_fst status_label_def)

theorem C9_sql_exception_passes_witness:
  "server_down [] (sql_request (payloads ! 0)) = Raises
   \<and> fst (test_sql_injection_protection server_down []) = True
   \<and> status_label (PBool (fst (test_sql_injection_protection server_down []))) = PASS"
proof -
  have a: "\<forall>i<length payloads.
      server_down ([] @ map sql_request (take i payloads)) (sql_request (payloads ! i)) = Raises"
    by (simp add: server_down_def)
  show ?thesis
    using a C9_sql_exception_passes [of True server_down "[]"]
    by (simp add: status_label_def server_down_def)
qed

end
